theory Spec2Isabelle
  imports Main
begin

section \<open>The blood-smear preparation simulation\<close>

text \<open>
  The component keeps its state in nine \<open>useState\<close> cells and changes it from event
  handlers and from \<open>setTimeout\<close> callbacks. The model is a record of the nine cells
  together with a clock (milliseconds) and the list of pending timeouts in the order
  they were scheduled. A handler reads the cells of the latest render (its closure) and
  its \<open>set...\<close> calls are applied together when it returns, so a handler is a function
  from the state before to the state after.
\<close>

subsection \<open>Step catalog\<close>

record procedure_step =
  step_id :: string
  action :: "string option"
  tool :: "string option"
  target :: "string option"
  nextStep :: "string option"

definition mkStep ::
  "string \<Rightarrow> string option \<Rightarrow> string option \<Rightarrow> string option \<Rightarrow> string option \<Rightarrow> procedure_step"
where
  "mkStep i a tol tgt n = \<lparr>step_id = i, action = a, tool = tol, target = tgt, nextStep = n\<rparr>"

text \<open>The array \<open>labProcedureSteps\<close>, without the instruction texts. A step
  without a \<open>tool\<close> property has \<open>tool = None\<close>.\<close>

definition labProcedureSteps :: "procedure_step list" where
  "labProcedureSteps =
    [mkStep ''intro'' None None None (Some ''gather_equipment''),
     mkStep ''gather_equipment'' (Some ''pick_up_tool'') None (Some ''alcohol_swab'')
       (Some ''clean_finger''),
     mkStep ''clean_finger'' (Some ''use_tool_on_target'') (Some ''alcohol_swab'')
       (Some ''finger'') (Some ''prick_finger''),
     mkStep ''prick_finger'' (Some ''pick_up_tool'') None (Some ''lancet'')
       (Some ''apply_lancet''),
     mkStep ''apply_lancet'' (Some ''use_tool_on_target'') (Some ''lancet'')
       (Some ''finger'') (Some ''wipe_first_drop''),
     mkStep ''wipe_first_drop'' (Some ''pick_up_tool'') None (Some ''alcohol_swab'')
       (Some ''wipe_blood''),
     mkStep ''wipe_blood'' (Some ''use_tool_on_target'') (Some ''alcohol_swab'')
       (Some ''blood_drop'') (Some ''wait_for_second_drop''),
     mkStep ''wait_for_second_drop'' (Some ''auto_advance_blood_drop'') None None
       (Some ''collect_second_drop''),
     mkStep ''collect_second_drop'' (Some ''pick_up_tool'') None (Some ''clean_slide'')
       (Some ''collect_blood_on_slide''),
     mkStep ''collect_blood_on_slide'' (Some ''use_tool_on_target'') (Some ''clean_slide'')
       (Some ''blood_drop'') (Some ''prepare_smear''),
     mkStep ''prepare_smear'' (Some ''pick_up_tool'') None (Some ''spreader_slide'')
       (Some ''perform_smear''),
     mkStep ''perform_smear'' (Some ''click_create_smear'') None
       (Some ''create_smear_button'') (Some ''air_dry''),
     mkStep ''air_dry'' (Some ''next_step_button'') None (Some ''next_button'')
       (Some ''microscope_observation''),
     mkStep ''microscope_observation'' (Some ''view_microscope'') None
       (Some ''microscope_icon'') (Some ''procedure_complete''),
     mkStep ''procedure_complete'' (Some ''next_step_button'') None (Some ''next_button'')
       (Some ''video_demonstration''),
     mkStep ''video_demonstration'' (Some ''next_step_button'') None (Some ''next_button'')
       (Some ''mcq_challenge''),
     mkStep ''mcq_challenge'' (Some ''mcq_handled_internally'') None None
       (Some ''final_completion''),
     mkStep ''final_completion'' None None None None]"

subsection \<open>State and timers\<close>

text \<open>The four kinds of closure the component passes to \<open>setTimeout\<close>: clearing the
  feedback (3000 ms), advancing the step and clearing the feedback (1500 ms, and 2000 ms
  after the quiz), calling \<open>handleAction\<close> with the auto-advance step's target
  (2000 ms), and reporting the quiz answer to \<open>onQuizComplete\<close> (2000 ms).\<close>

datatype callback =
    ClearFeedback
  | AdvanceStep
  | AutoAction "string option"
  | QuizComplete bool

type_synonym timer = "nat \<times> callback"

record sim =
  currentStep :: nat
  score :: int
  feedbackMessage :: string
  isCorrectAction :: "bool option"
  activeTool :: "string option"
  bloodDropVisible :: bool
  slideHasBlood :: bool
  smearQuality :: "string option"
  showMicroscopeView :: bool
  clock :: nat
  timers :: "timer list"

definition init :: sim where
  "init = \<lparr>currentStep = 0, score = 0, feedbackMessage = [], isCorrectAction = None,
     activeTool = None, bloodDropVisible = False, slideHasBlood = False,
     smearQuality = None, showMicroscopeView = False, clock = 0, timers = []\<rparr>"

text \<open>A handler that dereferences \<open>undefined\<close> or \<open>null\<close> throws a
  \<open>TypeError\<close>. The \<open>set...\<close> calls it made before the throw still take
  effect, so the error value carries the state they leave.\<close>

datatype error = TypeError

type_synonym result = "(error \<times> sim) + sim"

text \<open>\<open>labProcedureSteps[currentStep]\<close>: \<open>undefined\<close> (here \<open>None\<close>) past the end.\<close>

definition currentProcedure :: "sim \<Rightarrow> procedure_step option" where
  "currentProcedure s =
     (if currentStep s < length labProcedureSteps
      then Some (labProcedureSteps ! currentStep s) else None)"

definition setTimeout :: "callback \<Rightarrow> nat \<Rightarrow> sim \<Rightarrow> sim" where
  "setTimeout cb delay s = s\<lparr>timers := timers s @ [(clock s + delay, cb)]\<rparr>"

definition clearFeedback :: "sim \<Rightarrow> sim" where
  "clearFeedback s = s\<lparr>feedbackMessage := [], isCorrectAction := None\<rparr>"

definition setFeedback :: "string \<Rightarrow> bool \<Rightarrow> sim \<Rightarrow> sim" where
  "setFeedback message isCorrect s =
     s\<lparr>feedbackMessage := message, isCorrectAction := Some isCorrect\<rparr>"

text \<open>JavaScript truthiness of a value that is \<open>null\<close> or a string.\<close>

definition truthy :: "string option \<Rightarrow> bool" where
  "truthy v = (case v of None \<Rightarrow> False | Some x \<Rightarrow> x \<noteq> [])"

subsection \<open>Handlers\<close>

text \<open>The tail of \<open>handleDrop\<close> after the validation: release the tool, store the
  score and the feedback, and schedule either the delayed advance or the feedback
  clearing.\<close>

definition finishDrop :: "int \<Rightarrow> string \<Rightarrow> bool \<Rightarrow> bool \<Rightarrow> sim \<Rightarrow> sim" where
  "finishDrop newScore message isCorrect proceedToNextStep s =
     (let s1 = setFeedback message isCorrect (s\<lparr>activeTool := None, score := newScore\<rparr>)
      in if proceedToNextStep then setTimeout AdvanceStep 1500 s1
         else setTimeout ClearFeedback 3000 s1)"

definition handleDrop :: "string \<Rightarrow> sim \<Rightarrow> result" where
  \<open>handleDrop targetId s =
     (if \<not> truthy (activeTool s) then
        Inr (setTimeout ClearFeedback 3000
               (setFeedback ''Please pick up a tool first.'' False s))
      else case currentProcedure s of
        None \<Rightarrow> Inl (TypeError, clearFeedback s)
      | Some cp \<Rightarrow>
          if action cp = Some ''use_tool_on_target'' \<and> tool cp = activeTool s
               \<and> target cp = Some targetId then
            if step_id cp = ''clean_finger'' then
              Inr (finishDrop (score s + 10) ''Finger cleaned successfully!'' True True s)
            else if step_id cp = ''apply_lancet'' then
              Inr (finishDrop (score s + 20) ''Finger pricked! A blood drop appeared.''
                     True True (s\<lparr>bloodDropVisible := True\<rparr>))
            else if step_id cp = ''wipe_blood'' then
              (if bloodDropVisible s then
                 Inr (finishDrop (score s + 10) ''First blood drop wiped away. Good!''
                        True True (s\<lparr>bloodDropVisible := False\<rparr>))
               else
                 Inr (finishDrop (score s) ''There is no blood drop to wipe yet.''
                        False False s))
            else if step_id cp = ''collect_blood_on_slide'' then
              (if bloodDropVisible s then
                 Inr (finishDrop (score s + 20) ''Blood collected on the slide!''
                        True True (s\<lparr>bloodDropVisible := False, slideHasBlood := True\<rparr>))
               else
                 Inr (finishDrop (score s)
                        ''There is no blood drop to collect on the slide yet.''
                        False False s))
            else
              Inr (finishDrop (score s) ''Invalid action for this specific step.''
                     False False s)
          else
            Inr (finishDrop (score s) ''Incorrect action or target for this step.''
                   False False s))\<close>

definition handleCreateSmear :: "sim \<Rightarrow> sim" where
  \<open>handleCreateSmear s =
     (let cpId = map_option step_id (currentProcedure s) in
      if activeTool s = Some ''spreader_slide'' \<and> slideHasBlood s
           \<and> cpId = Some ''perform_smear'' then
        setTimeout AdvanceStep 1500
          (setFeedback ''Excellent! Good quality blood smear created.'' True
             (s\<lparr>smearQuality := Some ''good'', score := score s + 30,
                activeTool := None\<rparr>))
      else
        setTimeout ClearFeedback 3000
          ((if cpId \<noteq> Some ''perform_smear'' then
              clearFeedback s
                \<lparr>feedbackMessage := ''It's not time to create the smear yet. Follow the steps.''\<rparr>
            else if activeTool s \<noteq> Some ''spreader_slide'' then
              clearFeedback s\<lparr>feedbackMessage := ''First, pick up the Spreader Slide.''\<rparr>
            else if \<not> slideHasBlood s then
              clearFeedback s
                \<lparr>feedbackMessage := ''You need to collect blood on the slide first.''\<rparr>
            else clearFeedback s)
           \<lparr>isCorrectAction := Some False\<rparr>))\<close>

text \<open>\<open>target.replace(/_/g, ' ')\<close>.\<close>

definition underscoresToSpaces :: "string \<Rightarrow> string" where
  "underscoresToSpaces t = map (\<lambda>c. if c = CHR ''_'' then CHR '' '' else c) t"

text \<open>The two ways \<open>handleAction\<close> ends when no delegate took over: schedule the
  delayed advance (the message computed for that case is never stored), or store the
  score and the feedback and schedule its clearing.\<close>

definition proceedAction :: "sim \<Rightarrow> sim" where
  "proceedAction s = setTimeout AdvanceStep 1500 (clearFeedback s)"

definition feedbackAction :: "string \<Rightarrow> bool \<Rightarrow> sim \<Rightarrow> sim" where
  "feedbackAction message isCorrect s =
     setTimeout ClearFeedback 3000 (setFeedback message isCorrect s)"

definition handleAction :: "string option \<Rightarrow> sim \<Rightarrow> result" where
  \<open>handleAction objectId s =
     (case currentProcedure s of
        None \<Rightarrow> Inl (TypeError, clearFeedback s)
      | Some cp \<Rightarrow>
          if action cp = Some ''pick_up_tool'' then
            (if objectId = target cp then
               (case objectId of
                  None \<Rightarrow> Inl (TypeError, clearFeedback s\<lparr>activeTool := None\<rparr>)
                | Some obj \<Rightarrow> Inr (proceedAction (s\<lparr>activeTool := objectId\<rparr>)))
             else
               (case target cp of
                  None \<Rightarrow> Inl (TypeError, clearFeedback s)
                | Some t \<Rightarrow>
                    Inr (feedbackAction
                           (''Incorrect. Please pick up the '' @ underscoresToSpaces t @ ''.'')
                           False s)))
          else if action cp = Some ''next_step_button'' then
            (if objectId = Some ''next_button'' then Inr (proceedAction s)
             else Inr (feedbackAction ''Please click the "Next" button.'' False s))
          else if action cp = Some ''auto_advance_blood_drop'' then
            (if step_id cp = ''wait_for_second_drop'' then
               Inr (proceedAction (s\<lparr>bloodDropVisible := True\<rparr>))
             else Inr (feedbackAction [] False s))
          else if action cp = Some ''click_create_smear'' then
            (if objectId = Some ''create_smear_button'' then Inr (handleCreateSmear s)
             else Inr (clearFeedback s))
          else if action cp = Some ''view_microscope'' then
            (if objectId = Some ''microscope_icon'' then
               Inr (clearFeedback s\<lparr>showMicroscopeView := True\<rparr>)
             else Inr (clearFeedback s))
          else if action cp = Some ''mcq_handled_internally'' then
            Inr (clearFeedback s)
          else
            Inr (feedbackAction ''Invalid action for this step.'' False s))\<close>

definition handleDragStart :: "string \<Rightarrow> sim \<Rightarrow> sim" where
  \<open>handleDragStart toolId s =
     (let cp = currentProcedure s in
      if Option.bind cp tool = Some toolId
           \<and> Option.bind cp action = Some ''use_tool_on_target'' then
        clearFeedback s\<lparr>activeTool := Some toolId\<rparr>
      else
        setTimeout ClearFeedback 3000
          (setFeedback ''Please pick up the correct tool for this step.'' False s))\<close>

definition resetSimulation :: "sim \<Rightarrow> sim" where
  "resetSimulation s =
     s\<lparr>currentStep := 0, score := 0, feedbackMessage := [], isCorrectAction := None,
       activeTool := None, bloodDropVisible := False, slideHasBlood := False,
       smearQuality := None, showMicroscopeView := False\<rparr>"

text \<open>The inline \<open>onQuizComplete\<close> closure given to the quiz component.\<close>

definition onQuizComplete :: "bool \<Rightarrow> sim \<Rightarrow> sim" where
  \<open>onQuizComplete isAnswerCorrect s =
     setTimeout AdvanceStep 2000
       (if isAnswerCorrect then
          setFeedback ''Correct! Well done.'' True (s\<lparr>score := score s + 50\<rparr>)
        else
          setFeedback ''Incorrect. Try to review the video demonstration.'' False s)\<close>

subsection \<open>Rendering, events and the event loop\<close>

text \<open>The values of the nine \<open>useState\<close> cells. The component renders again
  exactly when one of them changed.\<close>

definition view ::
  "sim \<Rightarrow> nat \<times> int \<times> string \<times> bool option \<times> string option \<times> bool \<times> bool \<times> string option \<times> bool"
where
  "view s = (currentStep s, score s, feedbackMessage s, isCorrectAction s, activeTool s,
     bloodDropVisible s, slideHasBlood s, smearQuality s, showMicroscopeView s)"

fun isAutoAction :: "callback \<Rightarrow> bool" where
  "isAutoAction (AutoAction obj) = True"
| "isAutoAction cb = False"

text \<open>The auto-advance effect. One of its dependencies is the step array, which is
  built anew in every render, so the effect runs after every render: its cleanup clears
  the timeout of the previous run, and a step whose action is
  \<open>auto_advance_blood_drop\<close> gets a new timeout of 2000 ms.\<close>

definition autoAdvanceEffect :: "sim \<Rightarrow> sim" where
  \<open>autoAdvanceEffect s =
     (let s1 = s\<lparr>timers := filter (\<lambda>t. \<not> isAutoAction (snd t)) (timers s)\<rparr> in
      case currentProcedure s of
        None \<Rightarrow> s1
      | Some cp \<Rightarrow>
          if action cp = Some ''auto_advance_blood_drop''
          then setTimeout (AutoAction (target cp)) 2000 s1 else s1)\<close>

definition render :: "sim \<Rightarrow> sim \<Rightarrow> sim" where
  "render old new = (if view new = view old then new else autoAdvanceEffect new)"

definition settle :: "result \<Rightarrow> sim" where
  "settle r = (case r of Inl (e, s) \<Rightarrow> s | Inr s \<Rightarrow> s)"

text \<open>Running the closure of a timeout.\<close>

fun fire :: "callback \<Rightarrow> sim \<Rightarrow> sim" where
  "fire ClearFeedback s = clearFeedback s"
| "fire AdvanceStep s = clearFeedback (s\<lparr>currentStep := currentStep s + 1\<rparr>)"
| "fire (AutoAction obj) s = settle (handleAction obj s)"
| "fire (QuizComplete b) s = onQuizComplete b s"

text \<open>The pending timeout that is due first; among equal due times the one
  scheduled first.\<close>

fun earliest :: "timer \<Rightarrow> timer list \<Rightarrow> timer" where
  "earliest t [] = t"
| "earliest t (u # us) = (if fst u < fst t then earliest u us else earliest t us)"

definition tick :: "sim \<Rightarrow> sim" where
  "tick s =
     (case timers s of
        [] \<Rightarrow> s
      | t # ts \<Rightarrow>
          (let e = earliest t ts;
               s1 = s\<lparr>clock := max (clock s) (fst e), timers := remove1 e (timers s)\<rparr>
           in render s1 (fire (snd e) s1)))"

text \<open>
  What can happen to the component. \<open>Action\<close>, \<open>DragStart\<close> and \<open>Drop\<close>
  call \<open>handleAction\<close>, \<open>handleDragStart\<close> and \<open>handleDrop\<close>; the page
  attaches them to a control only in some states (see \<open>offered\<close> below), and the
  event loop lets them be called with any argument in any state, which only adds
  behaviours. The other buttons are guarded by the condition under which they are
  rendered: \<open>StartSimulation\<close> (\<open>currentStep === 0\<close>) and \<open>CloseMicroscope\<close>
  (\<open>showMicroscopeView\<close>) set the step themselves; \<open>QuizSubmit\<close> is an answer
  submitted in the quiz, mounted only at the step \<open>mcq_challenge\<close>, and schedules the
  call of \<open>onQuizComplete\<close>; \<open>Reset\<close> is the Restart button, the only call site of
  \<open>resetSimulation\<close>, rendered only at the step \<open>final_completion\<close>.
  \<open>Tick\<close> lets time pass until the next pending timeout is due and runs it;
  \<open>Wait d\<close> lets \<open>d\<close> milliseconds pass, but not beyond the next due timeout.
\<close>

datatype event =
    StartSimulation
  | Action "string option"
  | DragStart string
  | Drop string
  | CloseMicroscope
  | QuizSubmit bool
  | Reset
  | Tick
  | Wait nat

fun step :: "event \<Rightarrow> sim \<Rightarrow> sim" where
  "step StartSimulation s =
     (if currentStep s = 0 then render s (s\<lparr>currentStep := 1\<rparr>) else s)"
| "step (Action objectId) s = render s (settle (handleAction objectId s))"
| "step (DragStart toolId) s = render s (handleDragStart toolId s)"
| "step (Drop targetId) s = render s (settle (handleDrop targetId s))"
| "step CloseMicroscope s =
     (if showMicroscopeView s
      then render s (s\<lparr>showMicroscopeView := False, currentStep := currentStep s + 1\<rparr>)
      else s)"
| "step (QuizSubmit b) s =
     (if map_option step_id (currentProcedure s) = Some ''mcq_challenge''
      then setTimeout (QuizComplete b) 2000 s else s)"
| "step Reset s =
     (if map_option step_id (currentProcedure s) = Some ''final_completion''
      then render s (resetSimulation s) else s)"
| "step Tick s = tick s"
| "step (Wait d) s =
     (case timers s of
        [] \<Rightarrow> s\<lparr>clock := clock s + d\<rparr>
      | t # ts \<Rightarrow> s\<lparr>clock := min (clock s + d) (max (clock s) (fst (earliest t ts)))\<rparr>)"

fun run :: "event list \<Rightarrow> sim \<Rightarrow> sim" where
  "run [] s = s"
| "run (e # es) s = run es (step e s)"

section \<open>The safety and equipment-handling simulation\<close>

text \<open>
  The second component keeps the flags in one \<open>simState\<close> object, the step index
  in \<open>currentStep\<close>, a feedback text and the completion modal. The 3D scene is not
  modelled: what a pointer event finds there (the object under the pointer, and where
  the dragged object is when it is released) is given with the event.
\<close>

record sim_state =
  wearingLabCoat :: bool
  wearingGoggles :: bool
  balanceCalibrated :: bool
  cylinderPicked :: bool
  cylinderFilled :: bool
  cylinderAtBench :: bool
  cylinderWeighed :: bool
  wasteDisposed :: bool
  dragging :: "string option"

text \<open>The \<open>validate\<close> functions of the array \<open>PROCEDURE\<close>, in order.\<close>

definition PROCEDURE :: "(sim_state \<Rightarrow> bool) list" where
  "PROCEDURE =
    [\<lambda>state. wearingLabCoat state \<and> wearingGoggles state,
     \<lambda>state. balanceCalibrated state,
     \<lambda>state. cylinderFilled state \<and> cylinderAtBench state,
     \<lambda>state. cylinderWeighed state,
     \<lambda>state. wasteDisposed state]"

text \<open>Every timeout of this component has the same delay (850 ms), so the pending
  timeouts run in the order they were scheduled. The closure of a timeout holds the
  value \<open>currentStep\<close> had in the render whose effect scheduled it.\<close>

record lab =
  simState :: sim_state
  lab_currentStep :: nat
  lab_feedback :: string
  showModal :: bool
  lab_timers :: "nat list"

definition lab_init :: lab where
  "lab_init =
     \<lparr>simState = \<lparr>wearingLabCoat = False, wearingGoggles = False,
        balanceCalibrated = False, cylinderPicked = False, cylinderFilled = False,
        cylinderAtBench = False, cylinderWeighed = False, wasteDisposed = False,
        dragging = None\<rparr>,
      lab_currentStep = 0, lab_feedback = [], showModal = False, lab_timers = []\<rparr>"

text \<open>Where the dragged object is at release, as the four tests of
  \<open>onPointerUp\<close> see it: closer than 0.55 to the sink, within the rectangle of the
  main bench, closer than 0.38 to the balance, closer than 0.33 to the waste bin.\<close>

record proximity =
  nearSink :: bool
  nearBench :: bool
  nearBalance :: bool
  nearBin :: bool

text \<open>The keys of the scene's object table.\<close>

definition objects :: "string list" where
  "objects = [''bench_main'', ''bench_side'', ''sink'', ''balance'', ''cylinder'',
     ''beaker'', ''pipette'', ''wastebin'']"

text \<open>Each handler returns the new state and whether it called \<open>setSimState\<close>
  (which always stores a new object, so the progression effect runs afterwards).
  The tests of a handler read the \<open>simState\<close> of its closure; its updates are
  applied in order.\<close>

definition handleWearLabCoat :: "lab \<Rightarrow> lab \<times> bool" where
  \<open>handleWearLabCoat s =
     (if \<not> wearingLabCoat (simState s) then
        (s\<lparr>simState := (simState s)\<lparr>wearingLabCoat := True\<rparr>,
           lab_feedback := ''Lab coat worn.''\<rparr>, True)
      else (s, False))\<close>

definition handleWearGoggles :: "lab \<Rightarrow> lab \<times> bool" where
  \<open>handleWearGoggles s =
     (if \<not> wearingGoggles (simState s) then
        (s\<lparr>simState := (simState s)\<lparr>wearingGoggles := True\<rparr>,
           lab_feedback := ''Safety goggles worn.''\<rparr>, True)
      else (s, False))\<close>

text \<open>\<open>picked\<close> is the name of the object the ray hits among the cylinder and the
  pipette, if any.\<close>

definition onPointerDown :: "string option \<Rightarrow> lab \<Rightarrow> lab \<times> bool" where
  \<open>onPointerDown picked s =
     (if truthy (dragging (simState s)) then (s, False)
      else case picked of
        None \<Rightarrow> (s, False)
      | Some name \<Rightarrow>
          if (name = ''cylinder'' \<and> (lab_currentStep s = 2 \<or> lab_currentStep s = 3))
               \<or> (name = ''pipette'' \<and> lab_currentStep s = 2)
          then (s\<lparr>simState := (simState s)\<lparr>dragging := Some name\<rparr>\<rparr>, True)
          else (s, False))\<close>

definition onPointerUp :: "proximity \<Rightarrow> lab \<Rightarrow> lab \<times> bool" where
  \<open>onPointerUp p s =
     (let st = simState s in
      if \<not> truthy (dragging st) then (s, False)
      else if dragging st \<notin> Some ` set objects then
        (s\<lparr>simState := st\<lparr>dragging := None\<rparr>\<rparr>, True)
      else
        (let s1 = (if dragging st = Some ''cylinder'' then
               (let a = (if nearSink p \<and> \<not> cylinderFilled st then
                           s\<lparr>simState := (simState s)\<lparr>cylinderFilled := True\<rparr>,
                             lab_feedback := ''Cylinder filled with 50ml of water!''\<rparr>
                         else s);
                    b = (if cylinderFilled st \<and> nearBench p then
                           a\<lparr>simState := (simState a)\<lparr>cylinderAtBench := True\<rparr>,
                             lab_feedback := ''Cylinder placed on the bench.''\<rparr>
                         else a);
                    c = (if cylinderFilled st \<and> nearBalance p then
                           b\<lparr>simState := (simState b)\<lparr>cylinderWeighed := True\<rparr>,
                             lab_feedback := ''Cylinder weighed! Display: 53.4g''\<rparr>
                         else b)
                in if nearBin p \<and> cylinderFilled st then
                     c\<lparr>simState := (simState c)\<lparr>wasteDisposed := True,
                         cylinderFilled := False, cylinderAtBench := False,
                         cylinderWeighed := False\<rparr>,
                       lab_feedback := ''Waste properly disposed!''\<rparr>
                   else c)
             else s);
             s2 = (if dragging st = Some ''pipette'' then
                     s1\<lparr>lab_feedback := ''Pipette interaction is not required in this step.''\<rparr>
                   else s1)
         in (s2\<lparr>simState := (simState s2)\<lparr>dragging := None\<rparr>\<rparr>, True)))\<close>

text \<open>\<open>hit\<close>: the ray of the click hits the balance.\<close>

definition onBalanceClick :: "bool \<Rightarrow> lab \<Rightarrow> lab \<times> bool" where
  \<open>onBalanceClick hit s =
     (if hit then
        (if lab_currentStep s = 1 \<and> \<not> balanceCalibrated (simState s) then
           (s\<lparr>simState := (simState s)\<lparr>balanceCalibrated := True\<rparr>,
              lab_feedback := ''Balance calibrated (zeroed)!''\<rparr>, True)
         else if cylinderFilled (simState s) \<and> lab_currentStep s = 3 then
           (s\<lparr>simState := (simState s)\<lparr>cylinderWeighed := True\<rparr>,
              lab_feedback := ''Cylinder weighed! Display: 53.4g''\<rparr>, True)
         else (s, False))
      else (s, False))\<close>

text \<open>The step progression effect, which runs after a render with a new
  \<open>simState\<close> object: when the active step validates, it schedules a timeout whose
  closure holds the current step index.\<close>

definition progressionEffect :: "lab \<times> bool \<Rightarrow> lab" where
  "progressionEffect r =
     (case r of (s, changed) \<Rightarrow>
        if changed \<and> lab_currentStep s < length PROCEDURE
             \<and> (PROCEDURE ! lab_currentStep s) (simState s)
        then s\<lparr>lab_timers := lab_timers s @ [lab_currentStep s]\<rparr> else s)"

text \<open>The closure of a timeout, with the step index \<open>captured\<close> when it was
  scheduled.\<close>

definition timeoutCallback :: "nat \<Rightarrow> lab \<Rightarrow> lab" where
  \<open>timeoutCallback captured s =
     (if captured < length PROCEDURE - 1 then
        s\<lparr>lab_currentStep := lab_currentStep s + 1, lab_feedback := []\<rparr>
      else
        s\<lparr>lab_feedback :=
            ''Congratulations! You have completed all safety & handling steps.'',
          showModal := True\<rparr>)\<close>

datatype lab_event =
    WearLabCoat
  | WearGoggles
  | PointerDown "string option"
  | PointerUp proximity
  | BalanceClick bool
  | CloseModal
  | Timeout

text \<open>A render with \<open>currentStep\<close> past the end of \<open>PROCEDURE\<close> throws and
  the component is unmounted: from then on nothing changes its state.\<close>

definition lab_step :: "lab_event \<Rightarrow> lab \<Rightarrow> lab" where
  "lab_step e s =
     (if \<not> lab_currentStep s < length PROCEDURE then s
      else case e of
        WearLabCoat \<Rightarrow> progressionEffect (handleWearLabCoat s)
      | WearGoggles \<Rightarrow> progressionEffect (handleWearGoggles s)
      | PointerDown picked \<Rightarrow> progressionEffect (onPointerDown picked s)
      | PointerUp p \<Rightarrow> progressionEffect (onPointerUp p s)
      | BalanceClick hit \<Rightarrow> progressionEffect (onBalanceClick hit s)
      | CloseModal \<Rightarrow> s\<lparr>showModal := False\<rparr>
      | Timeout \<Rightarrow>
          (case lab_timers s of
             [] \<Rightarrow> s
           | captured # rest \<Rightarrow> timeoutCallback captured (s\<lparr>lab_timers := rest\<rparr>)))"

fun lab_run :: "lab_event list \<Rightarrow> lab \<Rightarrow> lab" where
  "lab_run [] s = s"
| "lab_run (e # es) s = lab_run es (lab_step e s)"


section \<open>Properties: definitions\<close>

subsection \<open>What the page offers\<close>

text \<open>The lab workspace (tool buttons, target areas and the buttons below them) is
  rendered after the intro, before the video step, and while the microscope view is
  closed.\<close>

definition workspaceVisible :: "sim \<Rightarrow> bool" where
  \<open>workspaceVisible s =
     (0 < currentStep s
      \<and> currentStep s
          < length (takeWhile (\<lambda>p. step_id p \<noteq> ''video_demonstration'') labProcedureSteps)
      \<and> \<not> showMicroscopeView s)\<close>

definition toolButtons :: "string list" where
  \<open>toolButtons = [''alcohol_swab'', ''lancet'', ''clean_slide'', ''spreader_slide'']\<close>

definition targetAreas :: "string list" where
  \<open>targetAreas = [''finger'', ''blood_drop'', ''clean_slide_area'']\<close>

text \<open>The events the rendered page can deliver in a state: a tool button is clickable
  when the step is to pick up that tool, and draggable when the step is to use that
  tool; a target area takes a drop when it is the step's target and the held tool is
  the step's tool; the Create Smear button exists at \<open>perform_smear\<close> while the
  spreader is held and the slide has blood; the button below the workspace sends
  \<open>microscope_icon\<close> at \<open>microscope_observation\<close> and \<open>next_button\<close> at
  \<open>air_dry\<close> and \<open>procedure_complete\<close>; the video player sends \<open>next_button\<close>.
  The call \<open>handleAction(null)\<close> of the auto-advance timeout is not an event of the
  page: it is part of \<open>Tick\<close>.\<close>

fun offered :: "event \<Rightarrow> sim \<Rightarrow> bool" where
  \<open>offered StartSimulation s = (currentStep s = 0)\<close>
| \<open>offered (Action objectId) s =
     (case currentProcedure s of
        None \<Rightarrow> False
      | Some cp \<Rightarrow>
          (workspaceVisible s \<and> objectId \<in> Some ` set toolButtons
             \<and> action cp = Some ''pick_up_tool'' \<and> target cp = objectId)
          \<or> (workspaceVisible s \<and> objectId = Some ''create_smear_button''
                \<and> step_id cp = ''perform_smear''
                \<and> activeTool s = Some ''spreader_slide'' \<and> slideHasBlood s)
          \<or> (workspaceVisible s \<and> objectId = Some ''microscope_icon''
                \<and> step_id cp = ''microscope_observation'')
          \<or> (workspaceVisible s \<and> objectId = Some ''next_button''
                \<and> (step_id cp = ''air_dry'' \<or> step_id cp = ''procedure_complete''))
          \<or> (objectId = Some ''next_button'' \<and> step_id cp = ''video_demonstration''))\<close>
| \<open>offered (DragStart toolId) s =
     (case currentProcedure s of
        None \<Rightarrow> False
      | Some cp \<Rightarrow>
          workspaceVisible s \<and> toolId \<in> set toolButtons
          \<and> action cp = Some ''use_tool_on_target'' \<and> tool cp = Some toolId)\<close>
| \<open>offered (Drop targetId) s =
     (case currentProcedure s of
        None \<Rightarrow> False
      | Some cp \<Rightarrow>
          workspaceVisible s \<and> targetId \<in> set targetAreas
          \<and> target cp = Some targetId \<and> activeTool s \<noteq> None \<and> activeTool s = tool cp)\<close>
| \<open>offered CloseMicroscope s = showMicroscopeView s\<close>
| \<open>offered (QuizSubmit b) s =
     (map_option step_id (currentProcedure s) = Some ''mcq_challenge'')\<close>
| \<open>offered Reset s =
     (map_option step_id (currentProcedure s) = Some ''final_completion'')\<close>
| \<open>offered Tick s = True\<close>
| \<open>offered (Wait d) s = True\<close>

text \<open>A run in which the page offers every event in the state where it happens.\<close>

fun offeredRun :: "event list \<Rightarrow> sim \<Rightarrow> bool" where
  "offeredRun [] s = True"
| "offeredRun (e # es) s = (offered e s \<and> offeredRun es (step e s))"

subsection \<open>Rejection and acceptance\<close>

text \<open>Timeouts that advance the step.\<close>

definition pendingAdvances :: "sim \<Rightarrow> timer list" where
  "pendingAdvances s = filter (\<lambda>t. snd t = AdvanceStep) (timers s)"

text \<open>A drop is rejected: the handler returns, stores a non-empty message tagged as
  incorrect, changes neither step, score nor any flag, and schedules nothing but the
  clearing of the message.\<close>

definition dropRejected :: "string \<Rightarrow> sim \<Rightarrow> bool" where
  "dropRejected targetId s =
     (case handleDrop targetId s of
        Inl e \<Rightarrow> False
      | Inr s' \<Rightarrow>
          isCorrectAction s' = Some False \<and> feedbackMessage s' \<noteq> []
          \<and> currentStep s' = currentStep s \<and> score s' = score s
          \<and> bloodDropVisible s' = bloodDropVisible s
          \<and> slideHasBlood s' = slideHasBlood s
          \<and> smearQuality s' = smearQuality s
          \<and> showMicroscopeView s' = showMicroscopeView s
          \<and> clock s' = clock s
          \<and> timers s' = timers s @ [(clock s + 3000, ClearFeedback)])"

fun isInteraction :: "event \<Rightarrow> bool" where
  "isInteraction (Action objectId) = True"
| "isInteraction (DragStart toolId) = True"
| "isInteraction (Drop targetId) = True"
| "isInteraction ev = False"

fun isDrop :: "event \<Rightarrow> bool" where
  "isDrop (Drop targetId) = True"
| "isDrop ev = False"

text \<open>The condition under which a handler takes the success branch of the active
  step: the required action of the step, as the handler tests it. At the auto-advance
  step \<open>handleAction\<close> tests no object id, so every call satisfies it.\<close>

definition actionSatisfies :: "string option \<Rightarrow> procedure_step \<Rightarrow> sim \<Rightarrow> bool" where
  \<open>actionSatisfies objectId cp s =
     (if action cp = Some ''pick_up_tool'' then objectId = target cp
      else if action cp = Some ''next_step_button'' then objectId = Some ''next_button''
      else if action cp = Some ''auto_advance_blood_drop'' then
        step_id cp = ''wait_for_second_drop''
      else if action cp = Some ''click_create_smear'' then
        objectId = Some ''create_smear_button'' \<and> activeTool s = Some ''spreader_slide''
        \<and> slideHasBlood s \<and> step_id cp = ''perform_smear''
      else if action cp = Some ''view_microscope'' then objectId = Some ''microscope_icon''
      else False)\<close>

definition dropSatisfies :: "string \<Rightarrow> procedure_step \<Rightarrow> sim \<Rightarrow> bool" where
  \<open>dropSatisfies targetId cp s =
     (truthy (activeTool s) \<and> action cp = Some ''use_tool_on_target''
      \<and> tool cp = activeTool s \<and> target cp = Some targetId
      \<and> (step_id cp = ''clean_finger'' \<or> step_id cp = ''apply_lancet''
           \<or> (step_id cp = ''wipe_blood'' \<or> step_id cp = ''collect_blood_on_slide'')
               \<and> bloodDropVisible s))\<close>

definition satisfiesRequiredAction :: "event \<Rightarrow> sim \<Rightarrow> bool" where
  \<open>satisfiesRequiredAction ev s =
     (case currentProcedure s of
        None \<Rightarrow> False
      | Some cp \<Rightarrow>
          (case ev of
             Action objectId \<Rightarrow> actionSatisfies objectId cp s
           | Drop targetId \<Rightarrow> dropSatisfies targetId cp s
           | DragStart toolId \<Rightarrow>
               tool cp = Some toolId \<and> action cp = Some ''use_tool_on_target''
           | _ \<Rightarrow> False))\<close>

text \<open>Step, score, the flags and the scheduled advances.\<close>

definition progress ::
  "sim \<Rightarrow> nat \<times> int \<times> bool \<times> bool \<times> string option \<times> bool \<times> timer list" where
  "progress s = (currentStep s, score s, bloodDropVisible s, slideHasBlood s,
     smearQuality s, showMicroscopeView s, pendingAdvances s)"

text \<open>The test of \<open>handleCreateSmear\<close>.\<close>

definition createSmearOk :: "sim \<Rightarrow> bool" where
  \<open>createSmearOk s =
     (activeTool s = Some ''spreader_slide'' \<and> slideHasBlood s
      \<and> map_option step_id (currentProcedure s) = Some ''perform_smear'')\<close>

subsection \<open>Runs of the blood-smear simulation\<close>

text \<open>The procedure as the page leads through it: pick up the swab, clean the finger,
  pick up the lancet (\<open>lancetRun\<close>); prick, pick up the swab, wipe the first drop
  (\<open>wipeRun\<close>); wait for the second drop, collect it, pick up the spreader
  (\<open>smearRun\<close>); create the smear, let it dry, look at it, continue to the video
  (\<open>videoRun\<close>). Each drop is preceded by the drag start of the tool.\<close>

definition lancetRun :: "event list" where
  \<open>lancetRun = [StartSimulation, Action (Some ''alcohol_swab''), Tick,
     DragStart ''alcohol_swab'', Drop ''finger'', Tick, Action (Some ''lancet''), Tick]\<close>

definition wipeRun :: "event list" where
  \<open>wipeRun = lancetRun @ [DragStart ''lancet'', Drop ''finger'', Tick,
     Action (Some ''alcohol_swab''), Tick, DragStart ''alcohol_swab'', Drop ''blood_drop'']\<close>

definition smearRun :: "event list" where
  \<open>smearRun = wipeRun @ [Tick, Tick, Tick, Action (Some ''clean_slide''), Tick,
     DragStart ''clean_slide'', Drop ''blood_drop'', Tick,
     Action (Some ''spreader_slide''), Tick]\<close>

definition videoRun :: "event list" where
  \<open>videoRun = smearRun @ [Action (Some ''create_smear_button''), Tick,
     Action (Some ''next_button''), Tick, Action (Some ''microscope_icon''),
     CloseMicroscope, Action (Some ''next_button''), Tick]\<close>

text \<open>At the video step, Next is clicked three times, 500 ms apart: three advances
  are scheduled. Two of them run and lead past the quiz to \<open>final_completion\<close>
  (\<open>finalRun\<close>), where Restart is clicked 300 ms later, while the third is still
  pending (\<open>restartRun\<close>).\<close>

definition finalRun :: "event list" where
  \<open>finalRun = videoRun @ [Action (Some ''next_button''), Wait 500,
     Action (Some ''next_button''), Wait 500, Action (Some ''next_button''),
     Tick, Tick, Wait 300]\<close>

definition restartRun :: "event list" where
  "restartRun = finalRun @ [Reset]"

text \<open>The swab is clicked three times at the first step, and the three advances lead
  to the step that needs the lancet while the swab is held.\<close>

definition wrongToolRun :: "event list" where
  \<open>wrongToolRun = [StartSimulation, Action (Some ''alcohol_swab''),
     Action (Some ''alcohol_swab''), Action (Some ''alcohol_swab''), Tick, Tick, Tick]\<close>

text \<open>The finger has just been pricked: the lancet is released and the step is still
  \<open>apply_lancet\<close>.\<close>

definition prickedRun :: "event list" where
  \<open>prickedRun = lancetRun @ [DragStart ''lancet'', Drop ''finger'']\<close>

subsection \<open>Runs of the safety simulation\<close>

definition atSink :: proximity where
  "atSink = \<lparr>nearSink = True, nearBench = False, nearBalance = False, nearBin = False\<rparr>"

definition atBench :: proximity where
  "atBench = \<lparr>nearSink = False, nearBench = True, nearBalance = False, nearBin = False\<rparr>"

definition atBin :: proximity where
  "atBin = \<lparr>nearSink = False, nearBench = False, nearBalance = False, nearBin = True\<rparr>"

text \<open>Coat and goggles, calibration, then the cylinder is filled at the sink and
  picked up again.\<close>

definition fillRun :: "lab_event list" where
  \<open>fillRun = [WearLabCoat, WearGoggles, Timeout, BalanceClick True, Timeout,
     PointerDown (Some ''cylinder''), PointerUp atSink, PointerDown (Some ''cylinder'')]\<close>

text \<open>The filled cylinder is put on the bench and picked up again before the timeout
  of the release has run; then both timeouts run.\<close>

definition skipRun :: "lab_event list" where
  \<open>skipRun = fillRun @ [PointerUp atBench, PointerDown (Some ''cylinder''), Timeout,
     Timeout]\<close>

fun isBinRelease :: "lab_event \<Rightarrow> bool" where
  "isBinRelease (PointerUp p) = nearBin p"
| "isBinRelease e = False"

section \<open>Properties of the blood-smear simulation\<close>

subsection \<open>The cells after each helper\<close>

lemma setTimeout_fields [simp]:
  "currentStep (setTimeout cb d s) = currentStep s"
  "score (setTimeout cb d s) = score s"
  "feedbackMessage (setTimeout cb d s) = feedbackMessage s"
  "isCorrectAction (setTimeout cb d s) = isCorrectAction s"
  "activeTool (setTimeout cb d s) = activeTool s"
  "bloodDropVisible (setTimeout cb d s) = bloodDropVisible s"
  "slideHasBlood (setTimeout cb d s) = slideHasBlood s"
  "smearQuality (setTimeout cb d s) = smearQuality s"
  "showMicroscopeView (setTimeout cb d s) = showMicroscopeView s"
  "clock (setTimeout cb d s) = clock s"
  "timers (setTimeout cb d s) = timers s @ [(clock s + d, cb)]"
  by (simp_all add: setTimeout_def)

lemma setFeedback_fields [simp]:
  "currentStep (setFeedback m b s) = currentStep s"
  "score (setFeedback m b s) = score s"
  "feedbackMessage (setFeedback m b s) = m"
  "isCorrectAction (setFeedback m b s) = Some b"
  "activeTool (setFeedback m b s) = activeTool s"
  "bloodDropVisible (setFeedback m b s) = bloodDropVisible s"
  "slideHasBlood (setFeedback m b s) = slideHasBlood s"
  "smearQuality (setFeedback m b s) = smearQuality s"
  "showMicroscopeView (setFeedback m b s) = showMicroscopeView s"
  "clock (setFeedback m b s) = clock s"
  "timers (setFeedback m b s) = timers s"
  by (simp_all add: setFeedback_def)

lemma clearFeedback_fields [simp]:
  "currentStep (clearFeedback s) = currentStep s"
  "score (clearFeedback s) = score s"
  "feedbackMessage (clearFeedback s) = []"
  "isCorrectAction (clearFeedback s) = None"
  "activeTool (clearFeedback s) = activeTool s"
  "bloodDropVisible (clearFeedback s) = bloodDropVisible s"
  "slideHasBlood (clearFeedback s) = slideHasBlood s"
  "smearQuality (clearFeedback s) = smearQuality s"
  "showMicroscopeView (clearFeedback s) = showMicroscopeView s"
  "clock (clearFeedback s) = clock s"
  "timers (clearFeedback s) = timers s"
  by (simp_all add: clearFeedback_def)

lemma finishDrop_fields [simp]:
  "currentStep (finishDrop n m b p s) = currentStep s"
  "score (finishDrop n m b p s) = n"
  "feedbackMessage (finishDrop n m b p s) = m"
  "isCorrectAction (finishDrop n m b p s) = Some b"
  "activeTool (finishDrop n m b p s) = None"
  "bloodDropVisible (finishDrop n m b p s) = bloodDropVisible s"
  "slideHasBlood (finishDrop n m b p s) = slideHasBlood s"
  "smearQuality (finishDrop n m b p s) = smearQuality s"
  "showMicroscopeView (finishDrop n m b p s) = showMicroscopeView s"
  "clock (finishDrop n m b p s) = clock s"
  "timers (finishDrop n m b p s)
     = timers s @ [if p then (clock s + 1500, AdvanceStep) else (clock s + 3000, ClearFeedback)]"
  by (simp_all add: finishDrop_def Let_def)

lemma proceedAction_fields [simp]:
  "currentStep (proceedAction s) = currentStep s"
  "score (proceedAction s) = score s"
  "feedbackMessage (proceedAction s) = []"
  "isCorrectAction (proceedAction s) = None"
  "activeTool (proceedAction s) = activeTool s"
  "bloodDropVisible (proceedAction s) = bloodDropVisible s"
  "slideHasBlood (proceedAction s) = slideHasBlood s"
  "smearQuality (proceedAction s) = smearQuality s"
  "showMicroscopeView (proceedAction s) = showMicroscopeView s"
  "clock (proceedAction s) = clock s"
  "timers (proceedAction s) = timers s @ [(clock s + 1500, AdvanceStep)]"
  by (simp_all add: proceedAction_def)

lemma feedbackAction_fields [simp]:
  "currentStep (feedbackAction m b s) = currentStep s"
  "score (feedbackAction m b s) = score s"
  "feedbackMessage (feedbackAction m b s) = m"
  "isCorrectAction (feedbackAction m b s) = Some b"
  "activeTool (feedbackAction m b s) = activeTool s"
  "bloodDropVisible (feedbackAction m b s) = bloodDropVisible s"
  "slideHasBlood (feedbackAction m b s) = slideHasBlood s"
  "smearQuality (feedbackAction m b s) = smearQuality s"
  "showMicroscopeView (feedbackAction m b s) = showMicroscopeView s"
  "clock (feedbackAction m b s) = clock s"
  "timers (feedbackAction m b s) = timers s @ [(clock s + 3000, ClearFeedback)]"
  by (simp_all add: feedbackAction_def)

lemma handleCreateSmear_fields [simp]:
  "currentStep (handleCreateSmear s) = currentStep s"
  "score (handleCreateSmear s) = (if createSmearOk s then score s + 30 else score s)"
  "isCorrectAction (handleCreateSmear s) = Some (createSmearOk s)"
  "activeTool (handleCreateSmear s) = (if createSmearOk s then None else activeTool s)"
  "bloodDropVisible (handleCreateSmear s) = bloodDropVisible s"
  "slideHasBlood (handleCreateSmear s) = slideHasBlood s"
  "smearQuality (handleCreateSmear s)
     = (if createSmearOk s then Some ''good'' else smearQuality s)"
  "showMicroscopeView (handleCreateSmear s) = showMicroscopeView s"
  "clock (handleCreateSmear s) = clock s"
  "timers (handleCreateSmear s)
     = timers s @ [if createSmearOk s then (clock s + 1500, AdvanceStep)
                   else (clock s + 3000, ClearFeedback)]"
  by (auto simp add: handleCreateSmear_def createSmearOk_def Let_def)

lemma handleDragStart_fields [simp]:
  "currentStep (handleDragStart t s) = currentStep s"
  "score (handleDragStart t s) = score s"
  "bloodDropVisible (handleDragStart t s) = bloodDropVisible s"
  "slideHasBlood (handleDragStart t s) = slideHasBlood s"
  "smearQuality (handleDragStart t s) = smearQuality s"
  "showMicroscopeView (handleDragStart t s) = showMicroscopeView s"
  "clock (handleDragStart t s) = clock s"
  by (simp_all add: handleDragStart_def Let_def)

lemma onQuizComplete_fields [simp]:
  "currentStep (onQuizComplete b s) = currentStep s"
  "activeTool (onQuizComplete b s) = activeTool s"
  "bloodDropVisible (onQuizComplete b s) = bloodDropVisible s"
  "slideHasBlood (onQuizComplete b s) = slideHasBlood s"
  "smearQuality (onQuizComplete b s) = smearQuality s"
  "showMicroscopeView (onQuizComplete b s) = showMicroscopeView s"
  "clock (onQuizComplete b s) = clock s"
  by (simp_all add: onQuizComplete_def)

lemma autoAdvanceEffect_fields [simp]:
  "currentStep (autoAdvanceEffect s) = currentStep s"
  "score (autoAdvanceEffect s) = score s"
  "feedbackMessage (autoAdvanceEffect s) = feedbackMessage s"
  "isCorrectAction (autoAdvanceEffect s) = isCorrectAction s"
  "activeTool (autoAdvanceEffect s) = activeTool s"
  "bloodDropVisible (autoAdvanceEffect s) = bloodDropVisible s"
  "slideHasBlood (autoAdvanceEffect s) = slideHasBlood s"
  "smearQuality (autoAdvanceEffect s) = smearQuality s"
  "showMicroscopeView (autoAdvanceEffect s) = showMicroscopeView s"
  "clock (autoAdvanceEffect s) = clock s"
  by (simp_all add: autoAdvanceEffect_def setTimeout_def currentProcedure_def Let_def
        split: option.splits)

lemma render_fields [simp]:
  "currentStep (render old new) = currentStep new"
  "score (render old new) = score new"
  "feedbackMessage (render old new) = feedbackMessage new"
  "isCorrectAction (render old new) = isCorrectAction new"
  "activeTool (render old new) = activeTool new"
  "bloodDropVisible (render old new) = bloodDropVisible new"
  "slideHasBlood (render old new) = slideHasBlood new"
  "smearQuality (render old new) = smearQuality new"
  "showMicroscopeView (render old new) = showMicroscopeView new"
  "clock (render old new) = clock new"
  by (simp_all add: render_def)

lemma resetSimulation_fields [simp]:
  "currentStep (resetSimulation s) = 0"
  "score (resetSimulation s) = 0"
  "feedbackMessage (resetSimulation s) = []"
  "isCorrectAction (resetSimulation s) = None"
  "activeTool (resetSimulation s) = None"
  "bloodDropVisible (resetSimulation s) = False"
  "slideHasBlood (resetSimulation s) = False"
  "smearQuality (resetSimulation s) = None"
  "showMicroscopeView (resetSimulation s) = False"
  "clock (resetSimulation s) = clock s"
  "timers (resetSimulation s) = timers s"
  by (simp_all add: resetSimulation_def)

lemma handleDrop_frame:
  "currentStep (settle (handleDrop g s)) = currentStep s"
  "smearQuality (settle (handleDrop g s)) = smearQuality s"
  "showMicroscopeView (settle (handleDrop g s)) = showMicroscopeView s"
  "clock (settle (handleDrop g s)) = clock s"
  by (simp_all add: handleDrop_def settle_def split: option.splits)

lemma handleAction_frame:
  "currentStep (settle (handleAction obj s)) = currentStep s"
  "slideHasBlood (settle (handleAction obj s)) = slideHasBlood s"
  "clock (settle (handleAction obj s)) = clock s"
  by (simp_all add: handleAction_def settle_def split: option.splits)

lemma handleAction_smearQuality:
  "smearQuality (settle (handleAction obj s)) = smearQuality s
   \<or> smearQuality (settle (handleAction obj s)) = Some ''good''"
  by (simp add: handleAction_def settle_def split: option.splits)

lemma handleDrop_slideHasBlood:
  "slideHasBlood s \<Longrightarrow> slideHasBlood (settle (handleDrop g s))"
  by (simp add: handleDrop_def settle_def split: option.splits)

lemma handleAction_bloodDropVisible:
  "bloodDropVisible s \<Longrightarrow> bloodDropVisible (settle (handleAction obj s))"
  by (simp add: handleAction_def settle_def split: option.splits)

subsection \<open>The catalog\<close>

lemma catalog_length: "length labProcedureSteps = 18"
  by (simp add: labProcedureSteps_def)


lemma currentProcedure_mem:
  "currentProcedure s = Some cp \<Longrightarrow> cp \<in> set labProcedureSteps"
  by (auto simp: currentProcedure_def split: if_splits)


lemma catalog_pick_up_target:
  \<open>cp \<in> set labProcedureSteps \<Longrightarrow> action cp = Some ''pick_up_tool'' \<Longrightarrow> target cp \<noteq> None\<close>
  by (auto simp: labProcedureSteps_def mkStep_def)

lemma currentProcedure_final:
  \<open>map_option step_id (currentProcedure s) = Some ''final_completion'' \<longleftrightarrow> currentStep s = 17\<close>
proof
  assume "currentStep s = 17"
  then show \<open>map_option step_id (currentProcedure s) = Some ''final_completion''\<close>
    by (simp add: currentProcedure_def labProcedureSteps_def mkStep_def)
next
  assume a: \<open>map_option step_id (currentProcedure s) = Some ''final_completion''\<close>
  then have "currentStep s < 18"
    by (auto simp: currentProcedure_def catalog_length split: if_splits)
  then have "currentStep s \<in> {0, 1, 2, 3, 4, 5, 6, 7, 8, 9, 10, 11, 12, 13, 14, 15, 16, 17}"
    by (simp del: One_nat_def) arith
  with a show "currentStep s = 17"
    by (auto simp: currentProcedure_def labProcedureSteps_def mkStep_def)
qed






lemma workspaceVisible_eq:
  "workspaceVisible s = (0 < currentStep s \<and> currentStep s < 15 \<and> \<not> showMicroscopeView s)"
  by (simp add: workspaceVisible_def labProcedureSteps_def mkStep_def eval_nat_numeral)

subsection \<open>Timeouts and rendering\<close>

lemma filter_advance_not_auto:
  "filter (\<lambda>t. \<not> isAutoAction (snd t) \<and> snd t = AdvanceStep) ts
     = filter (\<lambda>t. snd t = AdvanceStep) ts"
  by (rule filter_cong) auto

lemma pendingAdvances_autoAdvanceEffect [simp]:
  "pendingAdvances (autoAdvanceEffect s) = pendingAdvances s"
  by (simp add: pendingAdvances_def autoAdvanceEffect_def setTimeout_def Let_def
        filter_advance_not_auto split: option.splits)

lemma pendingAdvances_render [simp]:
  "pendingAdvances (render old new) = pendingAdvances new"
  by (simp add: render_def)

lemma render_changed:
  "currentStep new \<noteq> currentStep old \<Longrightarrow> render old new = autoAdvanceEffect new"
  by (auto simp: render_def view_def)


lemma fire_currentStep:
  "currentStep (fire cb s) = (if cb = AdvanceStep then currentStep s + 1 else currentStep s)"
  by (cases cb) (simp_all add: handleAction_frame)

lemma fire_smearQuality:
  "smearQuality (fire cb s) = smearQuality s \<or> smearQuality (fire cb s) = Some ''good''"
  using handleAction_smearQuality by (cases cb) simp_all

lemma fire_flags:
  "slideHasBlood (fire cb s) = slideHasBlood s"
  "bloodDropVisible s \<Longrightarrow> bloodDropVisible (fire cb s)"
  by (cases cb; simp add: handleAction_frame handleAction_bloodDropVisible)+

lemma tick_currentStep:
  "currentStep (tick s) = currentStep s \<or> currentStep (tick s) = currentStep s + 1"
  by (simp add: tick_def Let_def fire_currentStep split: list.splits)

lemma tick_smearQuality:
  "smearQuality (tick s) = smearQuality s \<or> smearQuality (tick s) = Some ''good''"
proof (cases "timers s")
  case Nil
  then show ?thesis by (simp add: tick_def)
next
  case (Cons t ts)
  define s1 where "s1 = s\<lparr>clock := max (clock s) (fst (earliest t ts)),
    timers := remove1 (earliest t ts) (timers s)\<rparr>"
  have "smearQuality s1 = smearQuality s" by (simp add: s1_def)
  moreover have "tick s = render s1 (fire (snd (earliest t ts)) s1)"
    using Cons by (simp add: tick_def s1_def Let_def)
  ultimately show ?thesis
    using fire_smearQuality [of "snd (earliest t ts)" s1] by simp
qed

lemma tick_flags:
  "slideHasBlood (tick s) = slideHasBlood s"
  "bloodDropVisible s \<Longrightarrow> bloodDropVisible (tick s)"
proof -
  have "slideHasBlood (tick s) = slideHasBlood s
        \<and> (bloodDropVisible s \<longrightarrow> bloodDropVisible (tick s))"
  proof (cases "timers s")
    case Nil
    then show ?thesis by (simp add: tick_def)
  next
    case (Cons t ts)
    define s1 where "s1 = s\<lparr>clock := max (clock s) (fst (earliest t ts)),
      timers := remove1 (earliest t ts) (timers s)\<rparr>"
    have "slideHasBlood s1 = slideHasBlood s" "bloodDropVisible s1 = bloodDropVisible s"
      by (simp_all add: s1_def)
    moreover have "tick s = render s1 (fire (snd (earliest t ts)) s1)"
      using Cons by (simp add: tick_def s1_def Let_def)
    ultimately show ?thesis
      using fire_flags [where cb = "snd (earliest t ts)" and s = s1] by simp
  qed
  then show "slideHasBlood (tick s) = slideHasBlood s"
    and "bloodDropVisible s \<Longrightarrow> bloodDropVisible (tick s)"
    by simp_all
qed

subsection \<open>One event\<close>

lemma step_currentStep:
  "ev \<noteq> Reset \<Longrightarrow>
     currentStep s \<le> currentStep (step ev s) \<and> currentStep (step ev s) \<le> currentStep s + 1"
  using tick_currentStep [of s]
  by (cases ev) (auto simp: handleAction_frame handleDrop_frame split: list.splits)

lemma step_smearQuality:
  "smearQuality (step ev s) = smearQuality s \<or> smearQuality (step ev s) = Some ''good''
   \<or> smearQuality (step ev s) = None"
  using tick_smearQuality [of s] handleAction_smearQuality
  by (cases ev) (auto simp: handleDrop_frame split: list.splits)

lemma isInteraction_keeps_step:
  "isInteraction ev \<Longrightarrow> currentStep (step ev s) = currentStep s"
  by (cases ev) (simp_all add: handleAction_frame handleDrop_frame)

lemma step_flags:
  "(slideHasBlood s \<and> \<not> slideHasBlood (step ev s) \<longrightarrow> ev = Reset)
   \<and> (smearQuality s \<noteq> None \<and> smearQuality (step ev s) = None \<longrightarrow> ev = Reset)
   \<and> (bloodDropVisible s \<and> \<not> bloodDropVisible (step ev s) \<longrightarrow> ev = Reset \<or> isDrop ev)"
proof (cases ev)
  case (Action objectId)
  then show ?thesis
    using handleAction_smearQuality [of objectId s]
    by (auto simp: handleAction_frame handleAction_bloodDropVisible)
next
  case (Drop targetId)
  then show ?thesis
    by (auto simp: handleDrop_frame handleDrop_slideHasBlood)
next
  case Tick
  then show ?thesis using tick_flags [of s] tick_smearQuality [of s] by auto
qed (auto split: list.splits)

lemma run_append: "run (es @ fs) s = run fs (run es s)"
  by (induction es arbitrary: s) auto

lemma offeredRun_append:
  "offeredRun (es @ fs) s = (offeredRun es s \<and> offeredRun fs (run es s))"
  by (induction es arbitrary: s) auto

lemma run_currentStep:
  "Reset \<notin> set evs \<Longrightarrow> currentStep s \<le> currentStep (run evs s)"
proof (induction evs arbitrary: s)
  case Nil
  then show ?case by simp
next
  case (Cons e es)
  then have "currentStep s \<le> currentStep (step e s)"
    using step_currentStep [of e s] by auto
  also have "\<dots> \<le> currentStep (run es (step e s))"
    using Cons by simp
  finally show ?case by simp
qed

lemma run_smearQuality:
  "smearQuality s = None \<or> smearQuality s = Some ''good'' \<Longrightarrow>
   smearQuality (run evs s) = None \<or> smearQuality (run evs s) = Some ''good''"
proof (induction evs arbitrary: s)
  case Nil
  then show ?case by simp
next
  case (Cons e es)
  have "smearQuality (step e s) = None \<or> smearQuality (step e s) = Some ''good''"
    using step_smearQuality [of e s] Cons.prems by auto
  then show ?case using Cons.IH by simp
qed

subsection \<open>The runs, evaluated\<close>

lemmas eval_defs =
  init_def handleAction_def handleDrop_def handleCreateSmear_def handleDragStart_def
  finishDrop_def proceedAction_def feedbackAction_def onQuizComplete_def
  resetSimulation_def setFeedback_def clearFeedback_def setTimeout_def settle_def
  truthy_def currentProcedure_def labProcedureSteps_def mkStep_def
  render_def view_def autoAdvanceEffect_def tick_def Let_def

lemmas offered_eval = workspaceVisible_eq toolButtons_def targetAreas_def

lemma lancetRun_state:
  \<open>run lancetRun init = init\<lparr>currentStep := 4, score := 10, activeTool := Some ''lancet'',
     clock := 4500\<rparr>\<close>
  by (simp add: lancetRun_def eval_defs)

lemma lancetRun_offered: "offeredRun lancetRun init"
  by (simp add: lancetRun_def eval_defs offered_eval)

lemma prickedRun_state:
  \<open>run prickedRun init = init\<lparr>currentStep := 4, score := 30,
     feedbackMessage := ''Finger pricked! A blood drop appeared.'',
     isCorrectAction := Some True, bloodDropVisible := True, clock := 4500,
     timers := [(6000, AdvanceStep)]\<rparr>\<close>
  unfolding prickedRun_def run_append lancetRun_state
  by (simp add: eval_defs)

lemma wipeRun_state:
  \<open>run wipeRun init = init\<lparr>currentStep := 6, score := 40,
     feedbackMessage := ''First blood drop wiped away. Good!'',
     isCorrectAction := Some True, clock := 7500, timers := [(9000, AdvanceStep)]\<rparr>\<close>
  unfolding wipeRun_def run_append lancetRun_state
  by (simp add: eval_defs)

lemma wipeRun_offered: "offeredRun wipeRun init"
  unfolding wipeRun_def offeredRun_append lancetRun_state
  by (intro conjI lancetRun_offered) (simp add: eval_defs offered_eval)

lemma smearRun_state:
  \<open>run smearRun init = init\<lparr>currentStep := 11, score := 60,
     activeTool := Some ''spreader_slide'', slideHasBlood := True, clock := 17000\<rparr>\<close>
  unfolding smearRun_def run_append wipeRun_state
  by (simp add: eval_defs)

lemma smearRun_offered: "offeredRun smearRun init"
  unfolding smearRun_def offeredRun_append wipeRun_state
  by (intro conjI wipeRun_offered) (simp add: eval_defs offered_eval)

lemma videoRun_state:
  \<open>run videoRun init = init\<lparr>currentStep := 15, score := 90, slideHasBlood := True,
     smearQuality := Some ''good'', clock := 21500\<rparr>\<close>
  unfolding videoRun_def run_append smearRun_state
  by (simp add: eval_defs)

lemma videoRun_offered: "offeredRun videoRun init"
  unfolding videoRun_def offeredRun_append smearRun_state
  by (intro conjI smearRun_offered) (simp add: eval_defs offered_eval)

lemma finalRun_state:
  \<open>run finalRun init = init\<lparr>currentStep := 17, score := 90, slideHasBlood := True,
     smearQuality := Some ''good'', clock := 23800, timers := [(24000, AdvanceStep)]\<rparr>\<close>
  unfolding finalRun_def run_append videoRun_state
  by (simp add: eval_defs)

lemma finalRun_offered: "offeredRun finalRun init"
  unfolding finalRun_def offeredRun_append videoRun_state
  by (intro conjI videoRun_offered) (simp add: eval_defs offered_eval)

lemma restartRun_state:
  "run restartRun init = init\<lparr>clock := 23800, timers := [(24000, AdvanceStep)]\<rparr>"
  unfolding restartRun_def run_append finalRun_state
  by (simp add: eval_defs)

lemma restartRun_offered: "offeredRun restartRun init"
  unfolding restartRun_def offeredRun_append finalRun_state
  by (intro conjI finalRun_offered) (simp add: eval_defs)

lemma wrongToolRun_state:
  \<open>run wrongToolRun init = init\<lparr>currentStep := 4, activeTool := Some ''alcohol_swab'',
     clock := 1500\<rparr>\<close>
  by (simp add: wrongToolRun_def eval_defs)

subsection \<open>Claim C1: a drop needs the matching tool\<close>

lemma drop_without_tool:
  "\<not> truthy (activeTool s) \<Longrightarrow> dropRejected targetId s"
  by (simp add: dropRejected_def handleDrop_def)

lemma drop_wrong_tool:
  assumes "currentProcedure s = Some cp" and "activeTool s \<noteq> tool cp"
  shows "dropRejected targetId s"
proof (cases "truthy (activeTool s)")
  case False
  then show ?thesis by (rule drop_without_tool)
next
  case True
  with assms show ?thesis
    by (simp add: dropRejected_def handleDrop_def)
qed

text \<open>
  Claim C1. At a step whose action is \<open>use_tool_on_target\<close>, a drop on the step's
  target is rejected whenever \<open>activeTool\<close> is not the step's tool: the handler
  stores incorrect feedback, leaves step, score and flags alone and schedules only the
  clearing of the feedback. A drop while \<open>activeTool\<close> is \<open>null\<close> is rejected in
  every state and on every target.
\<close>

theorem C1_drop_requires_matching_tool:
  "(currentProcedure s = Some cp \<and> action cp = Some ''use_tool_on_target''
      \<and> target cp = Some targetId \<and> activeTool s \<noteq> tool cp
      \<longrightarrow> dropRejected targetId s)
   \<and> (activeTool s = None \<longrightarrow> dropRejected anyTarget s)"
  using drop_wrong_tool [of s cp targetId] drop_without_tool [of s anyTarget]
  by (auto simp: truthy_def)

text \<open>
  The theorem at work: after three clicks on the swab the step needs the lancet while
  the swab is held, and right after the prick no tool is held; a drop on the finger is
  rejected in both states.
\<close>

theorem C1_drop_requires_matching_tool_witness:
  \<open>currentProcedure (run wrongToolRun init) = Some (labProcedureSteps ! 4)
   \<and> action (labProcedureSteps ! 4) = Some ''use_tool_on_target''
   \<and> target (labProcedureSteps ! 4) = Some ''finger''
   \<and> activeTool (run wrongToolRun init) \<noteq> tool (labProcedureSteps ! 4)
   \<and> dropRejected ''finger'' (run wrongToolRun init)
   \<and> activeTool (run prickedRun init) = None
   \<and> dropRejected ''finger'' (run prickedRun init)\<close>
proof -
  have a: \<open>currentProcedure (run wrongToolRun init) = Some (labProcedureSteps ! 4)
     \<and> action (labProcedureSteps ! 4) = Some ''use_tool_on_target''
     \<and> target (labProcedureSteps ! 4) = Some ''finger''
     \<and> activeTool (run wrongToolRun init) \<noteq> tool (labProcedureSteps ! 4)\<close>
    unfolding wrongToolRun_state
    by (simp add: init_def currentProcedure_def labProcedureSteps_def mkStep_def)
  have b: "activeTool (run prickedRun init) = None"
    unfolding prickedRun_state by (simp add: init_def)
  from a b
    C1_drop_requires_matching_tool [of "run wrongToolRun init" "labProcedureSteps ! 4"
      "''finger''" "''finger''"]
    C1_drop_requires_matching_tool [of "run prickedRun init" "labProcedureSteps ! 4"
      "''finger''" "''finger''"]
  show ?thesis by simp
qed

subsection \<open>Claim C2: rejected events change nothing\<close>

lemma progress_render [simp]: "progress (render old new) = progress new"
  by (simp add: progress_def)

lemma progress_feedbackAction [simp]: "progress (feedbackAction m b s) = progress s"
  by (simp add: progress_def pendingAdvances_def)

lemma progress_clearFeedback [simp]: "progress (clearFeedback s) = progress s"
  by (simp add: progress_def pendingAdvances_def)









text \<open>The converse: an event that satisfies the required action takes the success
  branch. A drop is tagged correct and schedules the advance; a click schedules the
  advance or, at the microscope step, opens the view; a drag start takes the tool.\<close>

lemma advances_render:
  "filter (\<lambda>t. snd t = AdvanceStep) (timers (render old new))
     = filter (\<lambda>t. snd t = AdvanceStep) (timers new)"
  using pendingAdvances_render [of old new] by (simp add: pendingAdvances_def)

lemma satisfied_drop_succeeds:
  assumes "satisfiesRequiredAction (Drop targetId) s"
  shows "isCorrectAction (step (Drop targetId) s) = Some True
    \<and> pendingAdvances (step (Drop targetId) s)
        = pendingAdvances s @ [(clock s + 1500, AdvanceStep)]"
proof -
  from assms obtain cp where cp: "currentProcedure s = Some cp"
    and d: "dropSatisfies targetId cp s"
    by (auto simp: satisfiesRequiredAction_def split: option.splits)
  from d have t: "truthy (activeTool s)"
    and m: "action cp = Some ''use_tool_on_target'' \<and> tool cp = activeTool s
        \<and> target cp = Some targetId"
    by (simp_all add: dropSatisfies_def)
  from d consider (clean) "step_id cp = ''clean_finger''"
    | (prick) "step_id cp = ''apply_lancet''"
    | (wipe) "step_id cp = ''wipe_blood''" "bloodDropVisible s"
    | (collect) "step_id cp = ''collect_blood_on_slide''" "bloodDropVisible s"
    by (auto simp: dropSatisfies_def)
  then show ?thesis
    by cases (simp_all add: handleDrop_def settle_def cp t m pendingAdvances_def advances_render)
qed

lemma satisfied_action_succeeds:
  assumes "satisfiesRequiredAction (Action objectId) s"
  shows "pendingAdvances (step (Action objectId) s)
        = pendingAdvances s @ [(clock s + 1500, AdvanceStep)]
    \<or> showMicroscopeView (step (Action objectId) s)"
proof -
  from assms obtain cp where cp: "currentProcedure s = Some cp"
    and a: "actionSatisfies objectId cp s"
    by (auto simp: satisfiesRequiredAction_def split: option.splits)
  have ok: "createSmearOk s
    \<longleftrightarrow> activeTool s = Some ''spreader_slide'' \<and> slideHasBlood s
        \<and> step_id cp = ''perform_smear''"
    using cp by (simp add: createSmearOk_def)
  from a consider (pick) "action cp = Some ''pick_up_tool''" "objectId = target cp"
    | (nxt) "action cp = Some ''next_step_button''" "objectId = Some ''next_button''"
    | (auto) "action cp = Some ''auto_advance_blood_drop''"
        "step_id cp = ''wait_for_second_drop''"
    | (smear) "action cp = Some ''click_create_smear''"
        "objectId = Some ''create_smear_button''" "createSmearOk s"
    | (view) "action cp = Some ''view_microscope''" "objectId = Some ''microscope_icon''"
    unfolding actionSatisfies_def ok by (auto split: if_splits)
  then show ?thesis
  proof cases
    case pick
    with cp have "target cp \<noteq> None"
      using catalog_pick_up_target currentProcedure_mem by blast
    with pick cp show ?thesis
      by (auto simp: handleAction_def settle_def pendingAdvances_def advances_render)
  next
    case nxt
    with cp show ?thesis
      by (simp add: handleAction_def settle_def pendingAdvances_def advances_render)
  next
    case auto
    with cp show ?thesis
      by (simp add: handleAction_def settle_def pendingAdvances_def advances_render)
  next
    case smear
    with cp show ?thesis
      by (simp add: handleAction_def settle_def pendingAdvances_def advances_render)
  next
    case view
    with cp show ?thesis by (simp add: handleAction_def settle_def)
  qed
qed

lemma satisfied_dragStart_succeeds:
  assumes "satisfiesRequiredAction (DragStart toolId) s"
  shows "activeTool (step (DragStart toolId) s) = Some toolId"
  using assms
  by (auto simp: satisfiesRequiredAction_def handleDragStart_def split: option.splits)



subsection \<open>Claim C3: reset\<close>

lemma step_Reset_offered:
  assumes "offered Reset s"
  shows "step Reset s = autoAdvanceEffect (resetSimulation s)"
proof -
  from assms have g: \<open>map_option step_id (currentProcedure s) = Some ''final_completion''\<close>
    by (simp only: offered.simps)
  then have "currentStep s = 17" by (simp only: currentProcedure_final)
  then have "render s (resetSimulation s) = autoAdvanceEffect (resetSimulation s)"
    by (intro render_changed) simp
  then show ?thesis by (simp only: step.simps g refl if_True)
qed

lemma autoAdvanceEffect_at_0:
  "currentStep s = 0 \<Longrightarrow>
     timers (autoAdvanceEffect s) = filter (\<lambda>t. \<not> isAutoAction (snd t)) (timers s)"
  by (simp add: autoAdvanceEffect_def currentProcedure_def labProcedureSteps_def mkStep_def
        Let_def)

lemma tick_fires_advance:
  assumes "timers s = t # ts" and "snd (earliest t ts) = AdvanceStep"
  shows "currentStep (tick s) = currentStep s + 1"
  using assms by (simp add: tick_def Let_def)

text \<open>
  Claim C3, as amended. \<open>resetSimulation\<close> puts all nine cells back to their
  initial values and touches no timeout. When the Restart button calls it, the
  re-render clears the pending auto-advance timeout, and every other pending timeout
  stays pending, in the same order; if the next of them to run is a delayed advance,
  it moves the step from 0 to 1.
\<close>

theorem C3_reset_restores_cells_not_timers:
  "currentStep (resetSimulation s) = currentStep init
   \<and> score (resetSimulation s) = score init
   \<and> feedbackMessage (resetSimulation s) = feedbackMessage init
   \<and> isCorrectAction (resetSimulation s) = isCorrectAction init
   \<and> activeTool (resetSimulation s) = activeTool init
   \<and> bloodDropVisible (resetSimulation s) = bloodDropVisible init
   \<and> slideHasBlood (resetSimulation s) = slideHasBlood init
   \<and> smearQuality (resetSimulation s) = smearQuality init
   \<and> showMicroscopeView (resetSimulation s) = showMicroscopeView init
   \<and> timers (resetSimulation s) = timers s
   \<and> (offered Reset s \<longrightarrow>
         view (step Reset s) = view init
         \<and> clock (step Reset s) = clock s
         \<and> timers (step Reset s) = filter (\<lambda>t. \<not> isAutoAction (snd t)) (timers s))
   \<and> (offered Reset s \<and> filter (\<lambda>t. \<not> isAutoAction (snd t)) (timers s) = t # ts
         \<and> snd (earliest t ts) = AdvanceStep
       \<longrightarrow> currentStep (step Tick (step Reset s)) = 1)"
proof -
  have cells: "view (resetSimulation s) = view init"
    by (simp add: view_def init_def)
  have off: "view (step Reset s) = view init \<and> clock (step Reset s) = clock s
      \<and> timers (step Reset s) = filter (\<lambda>t. \<not> isAutoAction (snd t)) (timers s)"
    if "offered Reset s"
    using step_Reset_offered [OF that]
    by (simp add: view_def init_def autoAdvanceEffect_at_0)
  have adv: "currentStep (step Tick (step Reset s)) = 1"
    if "offered Reset s" and "filter (\<lambda>t. \<not> isAutoAction (snd t)) (timers s) = t # ts"
      and "snd (earliest t ts) = AdvanceStep"
  proof -
    from off [OF that(1)] that(2) have "timers (step Reset s) = t # ts"
      and "currentStep (step Reset s) = 0"
      by (simp_all add: view_def init_def)
    with that(3) show ?thesis
      using tick_fires_advance [of "step Reset s" t ts] by simp
  qed
  from cells off adv show ?thesis
    by (simp add: view_def)
qed

text \<open>
  The theorem at work, in the state the run \<open>finalRun\<close> reaches: Restart is offered,
  one delayed advance is pending, the reset restores the cells and keeps the advance,
  and the advance then moves the step to 1.
\<close>

theorem C3_reset_restores_cells_not_timers_witness:
  "offered Reset (run finalRun init)
   \<and> filter (\<lambda>t. \<not> isAutoAction (snd t)) (timers (run finalRun init))
       = (24000, AdvanceStep) # []
   \<and> snd (earliest (24000, AdvanceStep) []) = AdvanceStep
   \<and> score (run finalRun init) = 90
   \<and> view (step Reset (run finalRun init)) = view init
   \<and> timers (step Reset (run finalRun init)) = [(24000, AdvanceStep)]
   \<and> currentStep (step Tick (step Reset (run finalRun init))) = 1"
proof -
  have a: "offered Reset (run finalRun init)"
    unfolding finalRun_state
    by (simp add: init_def currentProcedure_def labProcedureSteps_def mkStep_def)
  have b: "filter (\<lambda>t. \<not> isAutoAction (snd t)) (timers (run finalRun init))
       = (24000, AdvanceStep) # []"
    "score (run finalRun init) = 90"
    unfolding finalRun_state by (simp_all add: init_def)
  from C3_reset_restores_cells_not_timers [of "run finalRun init" "(24000, AdvanceStep)" "[]"]
    a b
  show ?thesis by simp
qed

text \<open>
  Claim C3 as stated fails, on a run in which the page offers every event: three quick
  clicks on Next at the video step schedule three advances; two of them lead to
  \<open>final_completion\<close>; Restart resets the step to 0 while the third is pending; when
  it runs, the step is 1.
\<close>

theorem C3_stale_advance_counterexample:
  "offeredRun restartRun init
   \<and> currentStep (run restartRun init) = 0
   \<and> timers (run restartRun init) = [(24000, AdvanceStep)]
   \<and> currentStep (step Tick (run restartRun init)) = 1"
proof -
  have "currentStep (run restartRun init) = 0
     \<and> timers (run restartRun init) = [(24000, AdvanceStep)]
     \<and> currentStep (step Tick (run restartRun init)) = 1"
    unfolding restartRun_state by (simp add: eval_defs)
  with restartRun_offered show ?thesis by simp
qed

subsection \<open>The safety simulation\<close>

lemmas lab_defs =
  lab_init_def lab_step_def progressionEffect_def timeoutCallback_def PROCEDURE_def
  handleWearLabCoat_def handleWearGoggles_def onPointerDown_def onPointerUp_def
  onBalanceClick_def objects_def truthy_def atSink_def atBench_def atBin_def

lemma progressionEffect_fields [simp]:
  "simState (progressionEffect r) = simState (fst r)"
  "lab_currentStep (progressionEffect r) = lab_currentStep (fst r)"
  by (simp_all add: progressionEffect_def split: prod.splits)

lemma handlers_keep_step [simp]:
  "lab_currentStep (fst (handleWearLabCoat s)) = lab_currentStep s"
  "lab_currentStep (fst (handleWearGoggles s)) = lab_currentStep s"
  "lab_currentStep (fst (onPointerDown picked s)) = lab_currentStep s"
  "lab_currentStep (fst (onPointerUp p s)) = lab_currentStep s"
  "lab_currentStep (fst (onBalanceClick hit s)) = lab_currentStep s"
  by (simp_all add: handleWearLabCoat_def handleWearGoggles_def onPointerDown_def
        onPointerUp_def onBalanceClick_def Let_def split: option.splits)

lemma handlers_keep_timers [simp]:
  "lab_timers (fst (handleWearLabCoat s)) = lab_timers s"
  "lab_timers (fst (handleWearGoggles s)) = lab_timers s"
  "lab_timers (fst (onPointerDown picked s)) = lab_timers s"
  "lab_timers (fst (onPointerUp p s)) = lab_timers s"
  "lab_timers (fst (onBalanceClick hit s)) = lab_timers s"
  by (simp_all add: handleWearLabCoat_def handleWearGoggles_def onPointerDown_def
        onPointerUp_def onBalanceClick_def Let_def split: option.splits)


lemma lab_step_currentStep:
  "lab_currentStep s \<le> lab_currentStep (lab_step e s)"
  by (cases e) (simp_all add: lab_step_def timeoutCallback_def split: list.splits)

lemma lab_run_currentStep:
  "lab_currentStep s \<le> lab_currentStep (lab_run es s)"
proof (induction es arbitrary: s)
  case Nil
  then show ?case by simp
next
  case (Cons e es)
  have "lab_currentStep s \<le> lab_currentStep (lab_step e s)"
    by (rule lab_step_currentStep)
  also have "\<dots> \<le> lab_currentStep (lab_run es (lab_step e s))"
    by (rule Cons.IH)
  finally show ?case by simp
qed

lemma onPointerUp_flags:
  "wearingLabCoat (simState (fst (onPointerUp p s))) = wearingLabCoat (simState s)"
  "wearingGoggles (simState (fst (onPointerUp p s))) = wearingGoggles (simState s)"
  "balanceCalibrated (simState (fst (onPointerUp p s))) = balanceCalibrated (simState s)"
  "wasteDisposed (simState s) \<longrightarrow> wasteDisposed (simState (fst (onPointerUp p s)))"
  "\<not> nearBin p \<longrightarrow> cylinderFilled (simState s)
     \<longrightarrow> cylinderFilled (simState (fst (onPointerUp p s)))"
  "\<not> nearBin p \<longrightarrow> cylinderAtBench (simState s)
     \<longrightarrow> cylinderAtBench (simState (fst (onPointerUp p s)))"
  "\<not> nearBin p \<longrightarrow> cylinderWeighed (simState s)
     \<longrightarrow> cylinderWeighed (simState (fst (onPointerUp p s)))"
  by (simp_all add: onPointerUp_def Let_def)

lemma other_handlers_flags:
  "h = handleWearLabCoat \<or> h = handleWearGoggles \<or> h = onPointerDown picked
     \<or> h = onBalanceClick hit \<Longrightarrow>
   (wearingLabCoat (simState s) \<longrightarrow> wearingLabCoat (simState (fst (h s))))
   \<and> (wearingGoggles (simState s) \<longrightarrow> wearingGoggles (simState (fst (h s))))
   \<and> (balanceCalibrated (simState s) \<longrightarrow> balanceCalibrated (simState (fst (h s))))
   \<and> (wasteDisposed (simState s) \<longrightarrow> wasteDisposed (simState (fst (h s))))
   \<and> (cylinderFilled (simState s) \<longrightarrow> cylinderFilled (simState (fst (h s))))
   \<and> (cylinderAtBench (simState s) \<longrightarrow> cylinderAtBench (simState (fst (h s))))
   \<and> (cylinderWeighed (simState s) \<longrightarrow> cylinderWeighed (simState (fst (h s))))"
  by (auto simp: handleWearLabCoat_def handleWearGoggles_def onPointerDown_def
        onBalanceClick_def split: option.splits)

lemma lab_step_flags:
  "(wearingLabCoat (simState s) \<longrightarrow> wearingLabCoat (simState (lab_step e s)))
   \<and> (wearingGoggles (simState s) \<longrightarrow> wearingGoggles (simState (lab_step e s)))
   \<and> (balanceCalibrated (simState s) \<longrightarrow> balanceCalibrated (simState (lab_step e s)))
   \<and> (wasteDisposed (simState s) \<longrightarrow> wasteDisposed (simState (lab_step e s)))
   \<and> (\<not> isBinRelease e \<longrightarrow> cylinderFilled (simState s)
        \<longrightarrow> cylinderFilled (simState (lab_step e s)))
   \<and> (\<not> isBinRelease e \<longrightarrow> cylinderAtBench (simState s)
        \<longrightarrow> cylinderAtBench (simState (lab_step e s)))
   \<and> (\<not> isBinRelease e \<longrightarrow> cylinderWeighed (simState s)
        \<longrightarrow> cylinderWeighed (simState (lab_step e s)))"
proof (cases e)
  case WearLabCoat
  then show ?thesis
    using other_handlers_flags [of handleWearLabCoat None False s]
    by (simp add: lab_step_def)
next
  case WearGoggles
  then show ?thesis
    using other_handlers_flags [of handleWearGoggles None False s]
    by (simp add: lab_step_def)
next
  case (PointerDown picked)
  then show ?thesis
    using other_handlers_flags [of "onPointerDown picked" picked False s]
    by (simp add: lab_step_def)
next
  case (PointerUp p)
  then show ?thesis
    using onPointerUp_flags [where p = p and s = s] by (simp add: lab_step_def)
next
  case (BalanceClick hit)
  then show ?thesis
    using other_handlers_flags [of "onBalanceClick hit" None hit s]
    by (simp add: lab_step_def)
next
  case CloseModal
  then show ?thesis by (simp add: lab_step_def)
next
  case Timeout
  then show ?thesis
    by (simp add: lab_step_def timeoutCallback_def split: list.splits)
qed

lemma fillRun_state:
  \<open>lab_run fillRun lab_init =
     \<lparr>simState = \<lparr>wearingLabCoat = True, wearingGoggles = True,
        balanceCalibrated = True, cylinderPicked = False, cylinderFilled = True,
        cylinderAtBench = False, cylinderWeighed = False, wasteDisposed = False,
        dragging = Some ''cylinder''\<rparr>,
      lab_currentStep = 2, lab_feedback = ''Cylinder filled with 50ml of water!'',
      showModal = False, lab_timers = []\<rparr>\<close>
  by (simp add: fillRun_def lab_defs Let_def)

subsection \<open>Claim C4: the step index never decreases\<close>

text \<open>
  Claim C4. In both simulations the step index never decreases along a sequence of
  events and timeouts without a reset. In the blood-smear simulation an event other
  than the reset raises it by at most one, the handlers of clicks, drags and drops
  leave it alone (it moves when a timeout runs, and with the Start and Close buttons),
  and only the reset lowers it, to 0. The safety simulation has no reset.
\<close>

theorem C4_step_index_never_decreases:
  "(Reset \<notin> set evs \<longrightarrow> currentStep s \<le> currentStep (run evs s))
   \<and> (ev \<noteq> Reset \<longrightarrow> currentStep (step ev s) \<le> currentStep s + 1)
   \<and> (isInteraction ev \<longrightarrow> currentStep (step ev s) = currentStep s)
   \<and> (currentStep (step ev s) < currentStep s \<longrightarrow> ev = Reset)
   \<and> currentStep (resetSimulation s) = 0
   \<and> lab_currentStep l \<le> lab_currentStep (lab_run es l)"
proof -
  have "currentStep (step ev s) < currentStep s \<longrightarrow> ev = Reset"
    using step_currentStep [of ev s] by (cases "ev = Reset") auto
  then show ?thesis
    using run_currentStep [of evs s] step_currentStep [of ev s]
      isInteraction_keeps_step [of ev s] lab_run_currentStep [of l es]
    by simp
qed

text \<open>
  The theorem at work on the run to the wiped first drop, on the reset at the end of
  \<open>finalRun\<close>, and on the run of the safety simulation.
\<close>

theorem C4_step_index_never_decreases_witness:
  "Reset \<notin> set wipeRun \<and> currentStep init = 0 \<and> currentStep (run wipeRun init) = 6
   \<and> currentStep init \<le> currentStep (run wipeRun init)
   \<and> Action None \<noteq> Reset \<and> isInteraction (Action None)
   \<and> currentStep (step (Action None) (run wipeRun init)) = 6
   \<and> currentStep (step Reset (run finalRun init)) < currentStep (run finalRun init)
   \<and> lab_currentStep lab_init = 0 \<and> lab_currentStep (lab_run skipRun lab_init) = 4
   \<and> lab_currentStep lab_init \<le> lab_currentStep (lab_run skipRun lab_init)"
proof -
  have a: "Reset \<notin> set wipeRun" by (simp add: wipeRun_def lancetRun_def)
  have b: "currentStep (run wipeRun init) = 6"
    unfolding wipeRun_state by (simp add: init_def)
  have c: "lab_currentStep (lab_run skipRun lab_init) = 4"
    by (simp add: skipRun_def fillRun_def lab_defs Let_def)
  have d: "currentStep (step Reset (run finalRun init)) < currentStep (run finalRun init)"
    unfolding finalRun_state by (simp add: eval_defs)
  from C4_step_index_never_decreases [of wipeRun init "Action None" lab_init skipRun]
    C4_step_index_never_decreases [of wipeRun "run wipeRun init" "Action None" lab_init skipRun]
    C4_step_index_never_decreases [of wipeRun "run finalRun init" Reset lab_init skipRun]
    a b c d
  show ?thesis by (simp add: init_def lab_init_def)
qed

subsection \<open>Claim C5: what clears a flag\<close>

lemma bin_release_clears:
  assumes "lab_currentStep l < length PROCEDURE"
    and \<open>dragging (simState l) = Some ''cylinder''\<close>
    and "cylinderFilled (simState l)" and "nearBin p"
  shows "\<not> cylinderFilled (simState (lab_step (PointerUp p) l))
    \<and> \<not> cylinderAtBench (simState (lab_step (PointerUp p) l))
    \<and> \<not> cylinderWeighed (simState (lab_step (PointerUp p) l))
    \<and> wasteDisposed (simState (lab_step (PointerUp p) l))"
  using assms by (simp add: lab_step_def onPointerUp_def truthy_def objects_def Let_def)

text \<open>
  Claim C5, as amended. All flags start false (\<open>smearQuality\<close>: none). In the safety
  simulation, which has no restart, \<open>wearingLabCoat\<close>, \<open>wearingGoggles\<close>,
  \<open>balanceCalibrated\<close> and \<open>wasteDisposed\<close> are never cleared once set, and
  \<open>cylinderFilled\<close>, \<open>cylinderAtBench\<close> and \<open>cylinderWeighed\<close> are cleared only
  by releasing the cylinder at the waste bin. In the blood-smear simulation
  \<open>slideHasBlood\<close> and \<open>smearQuality\<close> are cleared only by the reset, and
  \<open>bloodDropVisible\<close> only by the reset or by a drop (wiping or collecting the drop).
\<close>

theorem C5_flags_cleared_only_by:
  \<open>\<not> wearingLabCoat (simState lab_init) \<and> \<not> wearingGoggles (simState lab_init)
   \<and> \<not> balanceCalibrated (simState lab_init) \<and> \<not> cylinderFilled (simState lab_init)
   \<and> \<not> cylinderAtBench (simState lab_init) \<and> \<not> cylinderWeighed (simState lab_init)
   \<and> \<not> wasteDisposed (simState lab_init)
   \<and> \<not> bloodDropVisible init \<and> \<not> slideHasBlood init \<and> smearQuality init = None
   \<and> (wearingLabCoat (simState l) \<longrightarrow> wearingLabCoat (simState (lab_step e l)))
   \<and> (wearingGoggles (simState l) \<longrightarrow> wearingGoggles (simState (lab_step e l)))
   \<and> (balanceCalibrated (simState l) \<longrightarrow> balanceCalibrated (simState (lab_step e l)))
   \<and> (wasteDisposed (simState l) \<longrightarrow> wasteDisposed (simState (lab_step e l)))
   \<and> (cylinderFilled (simState l) \<and> \<not> cylinderFilled (simState (lab_step e l))
        \<longrightarrow> isBinRelease e)
   \<and> (cylinderAtBench (simState l) \<and> \<not> cylinderAtBench (simState (lab_step e l))
        \<longrightarrow> isBinRelease e)
   \<and> (cylinderWeighed (simState l) \<and> \<not> cylinderWeighed (simState (lab_step e l))
        \<longrightarrow> isBinRelease e)
   \<and> (lab_currentStep l < length PROCEDURE \<and> dragging (simState l) = Some ''cylinder''
        \<and> cylinderFilled (simState l) \<and> nearBin p
        \<longrightarrow> \<not> cylinderFilled (simState (lab_step (PointerUp p) l))
            \<and> \<not> cylinderAtBench (simState (lab_step (PointerUp p) l))
            \<and> \<not> cylinderWeighed (simState (lab_step (PointerUp p) l))
            \<and> wasteDisposed (simState (lab_step (PointerUp p) l)))
   \<and> (slideHasBlood s \<and> \<not> slideHasBlood (step ev s) \<longrightarrow> ev = Reset)
   \<and> (smearQuality s \<noteq> None \<and> smearQuality (step ev s) = None \<longrightarrow> ev = Reset)
   \<and> (bloodDropVisible s \<and> \<not> bloodDropVisible (step ev s) \<longrightarrow> ev = Reset \<or> isDrop ev)
   \<and> (offered Reset s \<longrightarrow> \<not> bloodDropVisible (step Reset s)
        \<and> \<not> slideHasBlood (step Reset s) \<and> smearQuality (step Reset s) = None)\<close>
proof -
  have "\<not> bloodDropVisible (step Reset s) \<and> \<not> slideHasBlood (step Reset s)
      \<and> smearQuality (step Reset s) = None" if "offered Reset s"
    using step_Reset_offered [OF that] by simp
  then show ?thesis
    using lab_step_flags [of l e] step_flags [of s ev] bin_release_clears [of l p]
    by (auto simp: lab_init_def init_def)
qed

text \<open>
  The theorem at work: the filled cylinder is released at the waste bin, which clears
  \<open>cylinderFilled\<close> and keeps the lab coat; and the blood drop of the prick stays
  visible when the delayed advance runs.
\<close>

theorem C5_flags_cleared_only_by_witness:
  \<open>cylinderFilled (simState (lab_run fillRun lab_init))
   \<and> lab_currentStep (lab_run fillRun lab_init) < length PROCEDURE
   \<and> dragging (simState (lab_run fillRun lab_init)) = Some ''cylinder''
   \<and> nearBin atBin
   \<and> \<not> cylinderFilled (simState (lab_step (PointerUp atBin) (lab_run fillRun lab_init)))
   \<and> wasteDisposed (simState (lab_step (PointerUp atBin) (lab_run fillRun lab_init)))
   \<and> isBinRelease (PointerUp atBin)
   \<and> wearingLabCoat (simState (lab_run fillRun lab_init))
   \<and> wearingLabCoat (simState (lab_step (PointerUp atBin) (lab_run fillRun lab_init)))
   \<and> offered Reset (run finalRun init)
   \<and> slideHasBlood (run finalRun init)
   \<and> \<not> slideHasBlood (step Reset (run finalRun init))\<close>
proof -
  have a: \<open>cylinderFilled (simState (lab_run fillRun lab_init))
     \<and> lab_currentStep (lab_run fillRun lab_init) < length PROCEDURE
     \<and> dragging (simState (lab_run fillRun lab_init)) = Some ''cylinder''
     \<and> nearBin atBin
     \<and> wearingLabCoat (simState (lab_run fillRun lab_init))\<close>
    unfolding fillRun_state by (simp add: atBin_def PROCEDURE_def)
  have b: "offered Reset (run finalRun init)" "slideHasBlood (run finalRun init)"
    unfolding finalRun_state
    by (simp_all add: init_def currentProcedure_def labProcedureSteps_def mkStep_def)
  from C5_flags_cleared_only_by [of "lab_run fillRun lab_init" "PointerUp atBin" atBin
      "run finalRun init" Reset] a b
  show ?thesis by simp
qed

text \<open>
  Claim C5 as stated fails: an ordinary interaction, releasing the filled cylinder at
  the waste bin, clears \<open>cylinderFilled\<close>, which filling at the sink had set.
\<close>

theorem C5_bin_clears_flags_counterexample:
  "cylinderFilled (simState (lab_run fillRun lab_init))
   \<and> \<not> cylinderFilled (simState (lab_step (PointerUp atBin) (lab_run fillRun lab_init)))
   \<and> wasteDisposed (simState (lab_step (PointerUp atBin) (lab_run fillRun lab_init)))"
  unfolding fillRun_state by (simp add: lab_defs Let_def)

subsection \<open>Claim C6: validation and advance\<close>







subsection \<open>Claim C7: the auto-advance step\<close>



subsection \<open>Claim C8: one interaction, two transitions\<close>






subsection \<open>Claim C9: the held tool is released\<close>







subsection \<open>Claim C10: the smear quality\<close>

text \<open>
  Claim C10. In every state the simulation reaches, \<open>smearQuality\<close> is \<open>null\<close> or
  \<open>'good'\<close>, never \<open>'too_thick'\<close> or \<open>'too_thin'\<close>; \<open>resetSimulation\<close> makes it
  \<open>null\<close> in every state, and so does the Restart button where the page offers it.
\<close>

theorem C10_smear_quality_null_or_good:
  \<open>(smearQuality (run evs init) = None \<or> smearQuality (run evs init) = Some ''good'')
   \<and> smearQuality (run evs init) \<noteq> Some ''too_thick''
   \<and> smearQuality (run evs init) \<noteq> Some ''too_thin''
   \<and> smearQuality (resetSimulation s) = None
   \<and> (offered Reset s \<longrightarrow> smearQuality (step Reset s) = None)\<close>
proof -
  have "smearQuality (run evs init) = None \<or> smearQuality (run evs init) = Some ''good''"
    by (rule run_smearQuality) (simp add: init_def)
  then show ?thesis by auto
qed

text \<open>
  The theorem at work at the end of \<open>finalRun\<close>, where the smear is \<open>'good'\<close> and
  Restart is offered.
\<close>

theorem C10_smear_quality_null_or_good_witness:
  \<open>offered Reset (run finalRun init)
   \<and> smearQuality (run finalRun init) = Some ''good''
   \<and> smearQuality (resetSimulation (run finalRun init)) = None
   \<and> smearQuality (step Reset (run finalRun init)) = None\<close>
proof -
  have a: "offered Reset (run finalRun init)"
    \<open>smearQuality (run finalRun init) = Some ''good''\<close>
    unfolding finalRun_state
    by (simp_all add: init_def currentProcedure_def labProcedureSteps_def mkStep_def)
  from C10_smear_quality_null_or_good [of finalRun "run finalRun init"] a
  show ?thesis by simp
qed

end
